theory Spec2Isabelle
  imports Main "HOL-Library.Sublist"
begin


section \<open>Python values shared by all components\<close>

text \<open>
  Python strings are modelled as HOL strings (lists of 8-bit characters, code points 0..255),
  Python's unbounded integers as \<open>int\<close>, and a raised exception as a value: \<open>Exn msg\<close> is
  an instance of (a subclass of) \<open>Exception\<close> whose \<open>str()\<close> is \<open>msg\<close>, and
  \<open>BaseExn\<close> is an exception that \<open>except Exception\<close> does not catch
  (KeyboardInterrupt, SystemExit).
\<close>

datatype exn = Exn string | BaseExn

section \<open>utils/event\_bus.py: RuntimeEventBus\<close>

text \<open>
  An event is the dict built in \<open>publish\<close>, without its \<open>timestamp\<close>: wall-clock time
  (\<open>time.time()\<close>) is outside this model, and nothing in the program reads the field back.
  Every method body runs under the one lock of the bus, so each call is one atomic step on
  the bus state.
\<close>

record event =
  ev_id :: int
  ev_type :: string
  ev_message :: string

record bus =
  events :: "event list"
  next_id :: int
  max_events :: nat

text \<open>\<open>__init__(self, max_events=2000)\<close>\<close>

definition RuntimeEventBus :: "nat \<Rightarrow> bus" where
  "RuntimeEventBus cap = \<lparr>events = [], next_id = 1, max_events = cap\<rparr>"

text \<open>
  \<open>deque(maxlen=n).append(x)\<close>: the element is added on the right and, when the deque
  has grown beyond \<open>maxlen\<close>, one element is removed on the left.
\<close>

definition deque_append :: "nat \<Rightarrow> 'a list \<Rightarrow> 'a \<Rightarrow> 'a list" where
  "deque_append maxlen xs x =
     (let ys = xs @ [x] in if maxlen < length ys then tl ys else ys)"

definition publish :: "string \<Rightarrow> string \<Rightarrow> bus \<Rightarrow> int \<times> bus" where
  "publish event_type message b =
     (let ev = \<lparr>ev_id = next_id b, ev_type = event_type, ev_message = message\<rparr>
      in (ev_id ev,
          b\<lparr>events := deque_append (max_events b) (events b) ev,
            next_id := next_id b + 1\<rparr>))"

definition get_since :: "int \<Rightarrow> bus \<Rightarrow> event list" where
  "get_since last_id b = filter (\<lambda>e. last_id < ev_id e) (events b)"

text \<open>A run of the writer: the calls of \<open>publish\<close> in order, each with its type and message.\<close>

fun publish_all :: "(string \<times> string) list \<Rightarrow> bus \<Rightarrow> bus" where
  "publish_all [] b = b"
| "publish_all ((ty, msg) # ms) b = publish_all ms (snd (publish ty msg b))"

text \<open>
  The reader of main.py (\<open>stream_events\<close>): after a poll it moves its cursor over every
  event it was given, \<open>cursor = max(cursor, event["id"])\<close>.
\<close>

definition advance_cursor :: "int \<Rightarrow> event list \<Rightarrow> int" where
  "advance_cursor c evs = foldl (\<lambda>cur e. max cur (ev_id e)) c evs"

section \<open>Bug records and fix outcomes\<close>

datatype BugType = SYNTAX | INDENTATION | IMPORT | TYPE_ERROR | LOGIC | LINTING | UNKNOWN

datatype Status = Detected | Fixed | Failed

text \<open>The dict appended by \<open>FixAgent.apply_fixes\<close>.\<close>

record FixOutcome =
  fx_file :: string
  fx_bug_type :: BugType
  fx_line :: int
  fx_status :: Status
  fx_commit_message :: string

type_synonym ident_key = "string \<times> BugType \<times> int"

definition fix_key :: "FixOutcome \<Rightarrow> ident_key" where
  "fix_key item = (fx_file item, fx_bug_type item, fx_line item)"

section \<open>Python's \<open>re\<close> and \<open>str\<close> operations used by the agents\<close>

text \<open>
  The agents drive Python's backtracking regular-expression engine with fixed patterns.
  The patterns are written as terms of \<open>re\<close> and matched by \<open>m\<close>, a backtracking
  matcher with the engine's preference order: alternatives left to right, greedy
  repetition longest first, lazy repetition shortest first.  Character classes are those
  of \<open>str\<close> patterns restricted to the code points 0..255 of a HOL \<open>char\<close>.
\<close>

datatype cls = AnyChar | NotNewline | Digit | Space | Word | OneOf string | NoneOf string

fun in_cls :: "cls \<Rightarrow> char \<Rightarrow> bool" where
  "in_cls AnyChar c = True"
| "in_cls NotNewline c = (c \<noteq> CHR 0x0A)"
| "in_cls Digit c = (let n = (of_char c :: nat) in 48 \<le> n \<and> n \<le> 57)"
| "in_cls Space c =
     (let n = (of_char c :: nat)
      in (9 \<le> n \<and> n \<le> 13) \<or> (28 \<le> n \<and> n \<le> 32) \<or> n = 133 \<or> n = 160)"
| "in_cls Word c =
     (let n = (of_char c :: nat)
      in (48 \<le> n \<and> n \<le> 57) \<or> (65 \<le> n \<and> n \<le> 90) \<or> n = 95 \<or> (97 \<le> n \<and> n \<le> 122) \<or>
         n = 170 \<or> n = 178 \<or> n = 179 \<or> n = 181 \<or> n = 185 \<or> n = 186 \<or>
         (188 \<le> n \<and> n \<le> 190) \<or> (192 \<le> n \<and> n \<le> 214) \<or> (216 \<le> n \<and> n \<le> 246) \<or>
         248 \<le> n)"
| "in_cls (OneOf cs) c = (c \<in> set cs)"
| "in_cls (NoneOf cs) c = (c \<notin> set cs)"

text \<open>
  \<open>Rep c n greedy\<close> is a run of at least \<open>n\<close> characters of class \<open>c\<close> (\<open>c*\<close>, \<open>c+\<close>,
  \<open>c*?\<close>, \<open>c+?\<close>, and a single \<open>c\<close> as \<open>One c\<close>); \<open>Grp i r\<close> is the capturing group
  number \<open>i + 1\<close>; \<open>Bol\<close> and \<open>Eol\<close> are \<open>^\<close> and \<open>$\<close> without MULTILINE.
\<close>

datatype re =
    Lit string
  | One cls
  | Rep cls nat bool
  | Seq re re
  | Alt re re
  | Opt re
  | Grp nat re
  | Bol
  | Eol

fun cat :: "re list \<Rightarrow> re" where
  "cat [] = Lit []"
| "cat [r] = r"
| "cat (r # rs) = Seq r (cat rs)"

text \<open>
  The matcher works on a stack of pending items: regular expressions still to match and
  the closing marks of open groups, which remember the input at the group's start.
\<close>

datatype kont = K re | KClose nat string

fun wt :: "re \<Rightarrow> nat" where
  "wt (Seq a b) = 1 + wt a + wt b"
| "wt (Alt a b) = 1 + wt a + wt b"
| "wt (Opt a) = 1 + wt a"
| "wt (Grp i a) = 2 + wt a"
| "wt r = 1"

fun wtK :: "kont \<Rightarrow> nat" where
  "wtK (K r) = wt r"
| "wtK (KClose i s) = 1"

text \<open>
  \<open>m n0 k s caps\<close>: match the stack \<open>k\<close> at the remaining input \<open>s\<close> of a subject of
  length \<open>n0\<close>; the result is the groups and the input left after the match.
\<close>

function m :: "nat \<Rightarrow> kont list \<Rightarrow> string \<Rightarrow> string list \<Rightarrow> (string list \<times> string) option" where
  "m n0 [] s caps = Some (caps, s)"
| "m n0 (KClose i s0 # k) s caps = m n0 k s (caps[i := take (length s0 - length s) s0])"
| "m n0 (K (Lit l) # k) s caps =
     (if prefix l s then m n0 k (drop (length l) s) caps else None)"
| "m n0 (K (One c) # k) s caps =
     (case s of [] \<Rightarrow> None | x # xs \<Rightarrow> if in_cls c x then m n0 k xs caps else None)"
| "m n0 (K (Rep c (Suc n) greedy) # k) s caps =
     (case s of [] \<Rightarrow> None
      | x # xs \<Rightarrow> if in_cls c x then m n0 (K (Rep c n greedy) # k) xs caps else None)"
| "m n0 (K (Rep c 0 True) # k) s caps =
     (case s of [] \<Rightarrow> m n0 k s caps
      | x # xs \<Rightarrow>
          if in_cls c x
          then (case m n0 (K (Rep c 0 True) # k) xs caps of
                  Some r \<Rightarrow> Some r
                | None \<Rightarrow> m n0 k s caps)
          else m n0 k s caps)"
| "m n0 (K (Rep c 0 False) # k) s caps =
     (case m n0 k s caps of
        Some r \<Rightarrow> Some r
      | None \<Rightarrow>
          (case s of [] \<Rightarrow> None
           | x # xs \<Rightarrow> if in_cls c x then m n0 (K (Rep c 0 False) # k) xs caps else None))"
| "m n0 (K (Seq a b) # k) s caps = m n0 (K a # K b # k) s caps"
| "m n0 (K (Alt a b) # k) s caps =
     (case m n0 (K a # k) s caps of Some r \<Rightarrow> Some r | None \<Rightarrow> m n0 (K b # k) s caps)"
| "m n0 (K (Opt a) # k) s caps =
     (case m n0 (K a # k) s caps of Some r \<Rightarrow> Some r | None \<Rightarrow> m n0 k s caps)"
| "m n0 (K (Grp i a) # k) s caps = m n0 (K a # KClose i s # k) s caps"
| "m n0 (K Bol # k) s caps = (if length s = n0 then m n0 k s caps else None)"
| "m n0 (K Eol # k) s caps = (if s = [] \<or> s = [CHR 0x0A] then m n0 k s caps else None)"
  by pat_completeness auto
termination
  by (relation "measures [\<lambda>(n0, k, s, caps). sum_list (map wtK k), \<lambda>(n0, k, s, caps). length s]")
    auto

text \<open>
  \<open>re.findall\<close>: scan from the left; after a match the scan goes on where the match ended,
  otherwise one character further.  A pattern with groups yields the groups of each
  match.  (No pattern of the agents can match the empty string; an empty match would be
  recorded and the scan moved on by one character.)
\<close>

function scan_findall :: "nat \<Rightarrow> re \<Rightarrow> nat \<Rightarrow> string \<Rightarrow> string list list" where
  "scan_findall n0 r ng s =
     (case m n0 [K r] s (replicate ng []) of
        None \<Rightarrow> (case s of [] \<Rightarrow> [] | c # cs \<Rightarrow> scan_findall n0 r ng cs)
      | Some (caps, rest) \<Rightarrow>
          if length rest < length s then caps # scan_findall n0 r ng rest
          else caps # (case s of [] \<Rightarrow> [] | c # cs \<Rightarrow> scan_findall n0 r ng cs))"
  by pat_completeness auto
termination
  by (relation "measure (\<lambda>(n0, r, ng, s). length s)") auto

declare scan_findall.simps [simp del]

definition findall :: "re \<Rightarrow> nat \<Rightarrow> string \<Rightarrow> string list list" where
  "findall r ng s = scan_findall (length s) r ng s"

text \<open>\<open>re.sub\<close> with a replacement template made of literal text and group references.\<close>

datatype rpart = RLit string | RGrp nat

fun expand :: "rpart list \<Rightarrow> string list \<Rightarrow> string" where
  "expand [] caps = []"
| "expand (RLit l # ps) caps = l @ expand ps caps"
| "expand (RGrp i # ps) caps = (caps ! i) @ expand ps caps"

function scan_sub :: "nat \<Rightarrow> re \<Rightarrow> nat \<Rightarrow> rpart list \<Rightarrow> string \<Rightarrow> string" where
  "scan_sub n0 r ng repl s =
     (case m n0 [K r] s (replicate ng []) of
        None \<Rightarrow> (case s of [] \<Rightarrow> [] | c # cs \<Rightarrow> c # scan_sub n0 r ng repl cs)
      | Some (caps, rest) \<Rightarrow>
          if length rest < length s then expand repl caps @ scan_sub n0 r ng repl rest
          else expand repl caps @
               (case s of [] \<Rightarrow> [] | c # cs \<Rightarrow> c # scan_sub n0 r ng repl cs))"
  by pat_completeness auto
termination
  by (relation "measure (\<lambda>(n0, r, ng, repl, s). length s)") auto

declare scan_sub.simps [simp del]

definition re_sub :: "re \<Rightarrow> nat \<Rightarrow> rpart list \<Rightarrow> string \<Rightarrow> string" where
  "re_sub r ng repl s = scan_sub (length s) r ng repl s"

text \<open>\<open>int(s)\<close> on a string of decimal digits, as \<open>\d+\<close> captures it.\<close>

definition py_int :: "string \<Rightarrow> int" where
  "py_int ds = foldl (\<lambda>a c. 10 * a + (int (of_char c) - 48)) 0 ds"

text \<open>\<open>str.lower\<close>, \<open>in\<close>, \<open>startswith\<close> and \<open>endswith\<close> (also with a tuple), \<open>strip\<close>.\<close>

definition lower_char :: "char \<Rightarrow> char" where
  "lower_char c =
     (let n = (of_char c :: nat)
      in if (65 \<le> n \<and> n \<le> 90) \<or> (192 \<le> n \<and> n \<le> 222 \<and> n \<noteq> 215)
         then char_of (n + 32) else c)"

definition lower :: "string \<Rightarrow> string" where
  "lower s = map lower_char s"

fun py_in :: "string \<Rightarrow> string \<Rightarrow> bool" where
  "py_in p [] = (p = [])"
| "py_in p (c # cs) = (prefix p (c # cs) \<or> py_in p cs)"

definition startswith :: "string \<Rightarrow> string \<Rightarrow> bool" where
  "startswith s p = prefix p s"

definition endswith :: "string \<Rightarrow> string \<Rightarrow> bool" where
  "endswith s p = suffix p s"

definition startswith_any :: "string \<Rightarrow> string list \<Rightarrow> bool" where
  "startswith_any s ps = list_ex (startswith s) ps"

definition lstrip :: "string \<Rightarrow> string" where
  "lstrip s = dropWhile (in_cls Space) s"

definition rstrip :: "string \<Rightarrow> string" where
  "rstrip s = rev (dropWhile (in_cls Space) (rev s))"

definition strip :: "string \<Rightarrow> string" where
  "strip s = lstrip (rstrip s)"

text \<open>\<open>s.split(sep)\<close> and \<open>s.replace(old, new)\<close> for a non-empty \<open>sep\<close> or \<open>old\<close>.\<close>

function split_from :: "string \<Rightarrow> string \<Rightarrow> string \<Rightarrow> string list" where
  "split_from sep cur [] = [cur]"
| "split_from sep cur (c # cs) =
     (if sep \<noteq> [] \<and> prefix sep (c # cs)
      then cur # split_from sep [] (drop (length sep) (c # cs))
      else split_from sep (cur @ [c]) cs)"
  by pat_completeness auto
termination
  by (relation "measure (\<lambda>(sep, cur, s). length s)") (auto simp: neq_Nil_conv)

definition py_split :: "string \<Rightarrow> string \<Rightarrow> string list" where
  "py_split sep s = split_from sep [] s"

function py_replace :: "string \<Rightarrow> string \<Rightarrow> string \<Rightarrow> string" where
  "py_replace old new [] = []"
| "py_replace old new (c # cs) =
     (if old \<noteq> [] \<and> prefix old (c # cs)
      then new @ py_replace old new (drop (length old) (c # cs))
      else c # py_replace old new cs)"
  by pat_completeness auto
termination
  by (relation "measure (\<lambda>(old, new, s). length s)") (auto simp: neq_Nil_conv)

text \<open>\<open>s.split(sep, 1)\<close>: at most one split, at the first occurrence.\<close>

fun split_once :: "string \<Rightarrow> string \<Rightarrow> string \<Rightarrow> string list" where
  "split_once sep cur [] = [cur]"
| "split_once sep cur (c # cs) =
     (if prefix sep (c # cs) then [cur, drop (length sep) (c # cs)]
      else split_once sep (cur @ [c]) cs)"

text \<open>\<open>sep.join(parts)\<close>\<close>

fun join :: "string \<Rightarrow> string list \<Rightarrow> string" where
  "join sep [] = []"
| "join sep [p] = p"
| "join sep (p # ps) = p @ sep @ join sep ps"

text \<open>
  \<open>f.readlines()\<close> cuts the text after every newline; \<open>f.writelines(lines)\<close> writes the
  pieces one after the other.
\<close>

fun lines_from :: "string \<Rightarrow> string \<Rightarrow> string list" where
  "lines_from cur [] = (if cur = [] then [] else [cur])"
| "lines_from cur (c # cs) =
     (if c = CHR 0x0A then (cur @ [c]) # lines_from [] cs else lines_from (cur @ [c]) cs)"

definition readlines :: "string \<Rightarrow> string list" where
  "readlines text = lines_from [] text"

definition writelines :: "string list \<Rightarrow> string" where
  "writelines ls = concat ls"

section \<open>agents/bug\_agent.py: BugAgent\<close>

text \<open>The dict appended by \<open>_add_bug\<close>.\<close>

record BugRecord =
  bug_file :: string
  bug_type :: BugType
  bug_line :: int
  bug_status :: Status

definition bug_key :: "BugRecord \<Rightarrow> ident_key" where
  "bug_key b = (bug_file b, bug_type b, bug_line b)"

text \<open>
  \<open>clean_path\<close>: \<open>full_path.split(sep)[1]\<close> is the text between the first and the second
  occurrence of \<open>sep\<close>; the test before it makes sure there are at least two pieces.
\<close>

definition clean_path :: "string \<Rightarrow> string" where
  "clean_path full_path =
     (if py_in ''workspace/repo/'' full_path then py_split ''workspace/repo/'' full_path ! 1
      else if py_in ''/repo/'' full_path then py_split ''/repo/'' full_path ! 1
      else full_path)"

text \<open>\<open>_add_bug\<close> on the pair of the local list \<open>bugs\<close> and the local set \<open>seen\<close>.\<close>

definition add_bug ::
  "BugRecord list \<times> ident_key set \<Rightarrow> string \<Rightarrow> BugType \<Rightarrow> int \<Rightarrow>
   BugRecord list \<times> ident_key set" where
  "add_bug st file_path bt line =
     (let clean = clean_path file_path; key = (clean, bt, line) in
      if key \<in> snd st then st
      else (fst st @ [\<lparr>bug_file = clean, bug_type = bt, bug_line = line, bug_status = Detected\<rparr>],
            insert key (snd st)))"

text \<open>
  The nine patterns of \<open>parse\<close>.  The first five and the last are compiled with DOTALL
  (the dot is \<open>AnyChar\<close>), the others are not (the dot is \<open>NotNewline\<close>).
\<close>

definition file_line :: "re list" where
  "file_line = [Lit (''File '' @ [CHR 0x22]),
      Grp 0 (Seq (Rep AnyChar 1 False) (Lit ''.py'')), Lit ([CHR 0x22] @ '', line ''),
      Grp 1 (Rep Digit 1 True), Rep AnyChar 0 False]"

definition syntax_re :: re where
  "syntax_re = cat (file_line @ [Lit ''SyntaxError''])"

definition indentation_re :: re where
  "indentation_re = cat (file_line @ [Grp 2 (Alt (Lit ''IndentationError'') (Lit ''TabError''))])"

definition import_re :: re where
  "import_re = cat (file_line @ [Grp 2 (Alt (Lit ''ModuleNotFoundError'') (Lit ''ImportError''))])"

definition type_re :: re where
  "type_re = cat (file_line @ [Grp 2 (Alt (Lit ''TypeError'') (Lit ''ValueError''))])"

definition logic_re :: re where
  "logic_re = cat (file_line @
     [Grp 2 (Alt (Lit ''NameError'') (Alt (Lit ''KeyError'')
        (Alt (Lit ''AssertionError'') (Lit ''AttributeError''))))])"

definition path_line :: "re list" where
  "path_line = [Grp 0 (Seq (Rep NotNewline 1 False) (Lit ''.py'')), Lit '':'',
      Grp 1 (Rep Digit 1 True), Lit '':'']"

definition logic_short_re :: re where
  "logic_short_re = cat (path_line @ [Rep Space 0 True, Lit ''AssertionError''])"

definition lint_re :: re where
  "lint_re = cat (path_line @
     [Opt (Seq (Rep Digit 1 True) (Lit '':'')), Rep Space 0 True,
      Alt (Lit ''F401'') (Alt (Lit ''W0611'')
        (Seq (Rep NotNewline 0 True) (Lit ''unused import'')))])"

definition pyright_re :: re where
  "pyright_re = cat (path_line @
     [Grp 2 (Rep Digit 1 True), Rep Space 0 True, Lit ''-'', Rep Space 0 True,
      Lit ''error:'', Rep Space 0 True, Grp 3 (Rep NotNewline 1 True)])"

definition collecting_re :: re where
  "collecting_re = cat [Lit ''ERROR collecting '',
      Grp 0 (Seq (Rep AnyChar 1 False) (Lit ''.py'')), Rep AnyChar 0 False, Lit ''ImportError'']"

text \<open>The bug type of a type-checker diagnostic, from its message.\<close>

definition pyright_type :: "string \<Rightarrow> BugType" where
  "pyright_type message =
     (let msg = lower message in
      if py_in ''import'' msg \<or> py_in ''cannot be resolved'' msg then IMPORT
      else if py_in ''type'' msg \<or> py_in ''argument of type'' msg \<or> py_in ''cannot assign'' msg
      then TYPE_ERROR
      else if py_in ''syntax'' msg then SYNTAX
      else LOGIC)"

text \<open>
  What each matcher family hands to \<open>_add_bug\<close>, in the order of the matches: the raw
  path, the bug type and \<open>int(line)\<close>.
\<close>

type_synonym candidate = "string \<times> BugType \<times> int"

definition family :: "BugType \<Rightarrow> re \<Rightarrow> nat \<Rightarrow> string \<Rightarrow> candidate list" where
  "family bt r ng logs = map (\<lambda>g. (g ! 0, bt, py_int (g ! 1))) (findall r ng logs)"

definition pyright_family :: "string \<Rightarrow> candidate list" where
  "pyright_family logs =
     map (\<lambda>g. (g ! 0, pyright_type (g ! 3), py_int (g ! 1))) (findall pyright_re 4 logs)"

definition collecting_family :: "string \<Rightarrow> candidate list" where
  "collecting_family logs = map (\<lambda>g. (g ! 0, IMPORT, 1)) (findall collecting_re 1 logs)"

text \<open>One \<open>for\<close> loop of \<open>parse\<close>: every match of a family goes through \<open>_add_bug\<close>.\<close>

definition add_bugs ::
  "candidate list \<Rightarrow> BugRecord list \<times> ident_key set \<Rightarrow> BugRecord list \<times> ident_key set" where
  "add_bugs cands st = foldl (\<lambda>st (file_path, bt, line). add_bug st file_path bt line) st cands"

definition parse :: "string \<Rightarrow> BugRecord list" where
  "parse logs =
     (if logs = [] then []
      else
        let st = ([], {});
            st = add_bugs (family SYNTAX syntax_re 2 logs) st;
            st = add_bugs (family INDENTATION indentation_re 3 logs) st;
            st = add_bugs (family IMPORT import_re 3 logs) st;
            st = add_bugs (family TYPE_ERROR type_re 3 logs) st;
            st = add_bugs (family LOGIC logic_re 3 logs) st;
            st = add_bugs (family LOGIC logic_short_re 2 logs) st;
            st = add_bugs (family LINTING lint_re 2 logs) st;
            st = add_bugs (pyright_family logs) st;
            st = add_bugs (collecting_family logs) st;
            st = (if fst st = [] then add_bug st ''<unknown>'' UNKNOWN 1 else st)
        in fst st)"

text \<open>
  For stating what \<open>parse\<close> returns: everything the nine families hand to \<open>_add_bug\<close>, in
  the order in which \<open>parse\<close> runs them, and the identity key under which \<open>_add_bug\<close>
  files a candidate.
\<close>

definition candidates :: "string \<Rightarrow> candidate list" where
  "candidates logs =
     family SYNTAX syntax_re 2 logs @ family INDENTATION indentation_re 3 logs @
     family IMPORT import_re 3 logs @ family TYPE_ERROR type_re 3 logs @
     family LOGIC logic_re 3 logs @ family LOGIC logic_short_re 2 logs @
     family LINTING lint_re 2 logs @ pyright_family logs @ collecting_family logs"






section \<open>agents/fix\_agent.py: the rewriting of the target line\<close>

text \<open>The patterns of \<open>fix_syntax_issue\<close>: \<open>,\s*,+\<close>, \<open>\s*:\s*$\<close>, \<open>,\s*$\<close> and \<open>\s+\<close>.\<close>

definition comma_run_re :: re where
  "comma_run_re = cat [Lit '','', Rep Space 0 True, Rep (OneOf '','') 1 True]"

definition trailing_colon_re :: re where
  "trailing_colon_re = cat [Rep Space 0 True, Lit '':'', Rep Space 0 True, Eol]"

definition trailing_comma_re :: re where
  "trailing_comma_re = cat [Lit '','', Rep Space 0 True, Eol]"

definition spaces_re :: re where
  "spaces_re = Rep Space 1 True"

text \<open>The value of \<open>cleaned\<close> for a line that starts an import statement.\<close>

definition clean_import :: "string \<Rightarrow> exn + string" where
  "clean_import line =
     (let cleaned = rstrip line;
          cleaned = re_sub comma_run_re 0 [RLit '', ''] cleaned;
          cleaned = re_sub trailing_colon_re 0 [] cleaned;
          cleaned = re_sub trailing_comma_re 0 [] cleaned;
          cleaned = strip (re_sub spaces_re 0 [RLit '' ''] cleaned)
      in if startswith cleaned ''import ''
         then (case split_once ''import '' [] cleaned of
                 [head, tail] \<Rightarrow>
                   let modules = filter (\<lambda>m. m \<noteq> []) (map strip (py_split '','' tail))
                   in Inr (if modules \<noteq> []
                           then strip (head @ ''import '' @ join '', '' modules)
                           else cleaned)
               | _ \<Rightarrow> Inl (Exn ''not enough values to unpack (expected 2, got 1)''))
         else Inr cleaned)"

definition colon_targets :: "string list" where
  "colon_targets = [''def '', ''class '', ''if '', ''elif '', ''else'', ''for '', ''while '',
     ''try'', ''except '', ''finally'', ''with '']"

text \<open>
  The two rewriting steps of \<open>fix_syntax_issue\<close> on the list of lines, at index \<open>i\<close>;
  the result is the new list and the flag \<open>changed\<close>.
\<close>

definition syntax_rewrite :: "string list \<Rightarrow> nat \<Rightarrow> exn + (string list \<times> bool)" where
  "syntax_rewrite lines i =
     (let line = lines ! i in
      case (if startswith_any (lstrip line) [''import '', ''from '']
            then (case clean_import line of
                    Inl e \<Rightarrow> Inl e
                  | Inr cleaned \<Rightarrow>
                      Inr (if cleaned \<noteq> rstrip line
                           then (lines[i := cleaned @ [CHR 0x0A]], True)
                           else (lines, False)))
            else Inr (lines, False)) of
        Inl e \<Rightarrow> Inl e
      | Inr (lines1, changed1) \<Rightarrow>
          let current = lines1 ! i; stripped = strip current in
          if startswith_any stripped colon_targets \<and> \<not> endswith stripped '':''
          then Inr (lines1[i := rstrip current @ '':'' @ [CHR 0x0A]], True)
          else Inr (lines1, changed1))"

text \<open>\<open>fix_indentation_issue\<close>: the new target line and the flag \<open>changed\<close>.\<close>

definition indentation_rewrite :: "string list \<Rightarrow> int \<Rightarrow> string \<times> bool" where
  "indentation_rewrite lines line_no =
     (let original = lines ! nat (line_no - 1);
          updated = py_replace [CHR 0x09] ''    '' original;
          changed = (updated \<noteq> original)
      in if 1 < line_no \<and> endswith (rstrip (lines ! nat (line_no - 2))) '':'' \<and>
            strip updated \<noteq> [] \<and> \<not> startswith_any updated ['' '', [CHR 0x09]]
         then (''    '' @ updated, True)
         else (updated, changed))"

text \<open>
  \<open>fix_type_error\<close>: the patterns \<open>([+\-*/%]\s*)["\'](-?\d+(?:\.\d+)?)["\']\<close> and
  \<open>int\(([^()]+)\)\<close>.
\<close>

definition quoted_number_re :: re where
  "quoted_number_re = cat
     [Grp 0 (Seq (One (OneOf ''+-*/%'')) (Rep Space 0 True)),
      One (OneOf [CHR 0x22, CHR 0x27]),
      Grp 1 (cat [Opt (Lit ''-''), Rep Digit 1 True, Opt (Seq (Lit ''.'') (Rep Digit 1 True))]),
      One (OneOf [CHR 0x22, CHR 0x27])]"

definition int_call_re :: re where
  "int_call_re = cat [Lit ''int('', Grp 0 (Rep (NoneOf ''()'') 1 True), Lit '')'']"

definition type_rewrite :: "string \<Rightarrow> string \<times> bool" where
  "type_rewrite line0 =
     (let normalized = re_sub quoted_number_re 2 [RGrp 0, RGrp 1] line0;
          (line1, changed1) = (if normalized \<noteq> line0 then (normalized, True) else (line0, False))
      in if py_in ''int('' line1 \<and> \<not> py_in ''int(float('' line1
         then (let wrapped = re_sub int_call_re 1 [RLit ''int(float('', RGrp 0, RLit ''))''] line1
               in if wrapped \<noteq> line1 then (wrapped, True) else (line1, changed1))
         else (line1, changed1))"

text \<open>
  \<open>fix_logic_issue\<close>: the pattern \<open>^(\s*return\s+)([A-Za-z_]\w*)\[(.+)\](\s*)$\<close>, then
  \<open>//\<close> to \<open>/\<close>.
\<close>

definition safe_get_re :: re where
  "safe_get_re = cat
     [Bol,
      Grp 0 (cat [Rep Space 0 True, Lit ''return'', Rep Space 1 True]),
      Grp 1 (Seq (One (OneOf ''ABCDEFGHIJKLMNOPQRSTUVWXYZabcdefghijklmnopqrstuvwxyz_''))
                 (Rep Word 0 True)),
      Lit ''['', Grp 2 (Rep NotNewline 1 True), Lit '']'', Grp 3 (Rep Space 0 True), Eol]"

definition logic_rewrite :: "string \<Rightarrow> string \<times> bool" where
  "logic_rewrite line0 =
     (let safe_get = re_sub safe_get_re 4 [RGrp 0, RGrp 1, RLit ''.get('', RGrp 2, RLit '')'', RGrp 3] line0;
          (line1, changed1) = (if safe_get \<noteq> line0 then (safe_get, True) else (line0, False))
      in if py_in ''//'' line1 then (py_replace ''//'' ''/'' line1, True) else (line1, changed1))"

section \<open>orchestrator.py: the run-scoped fix accumulator\<close>

text \<open>
  \<open>self.fixes\<close> and \<open>self._fix_index\<close>.  \<open>self.fixes[existing_pos]\<close> raises IndexError
  when the position is out of range.
\<close>

record fix_acc =
  acc_fixes :: "FixOutcome list"
  acc_index :: "ident_key \<rightharpoonup> nat"

definition empty_acc :: fix_acc where
  "empty_acc = \<lparr>acc_fixes = [], acc_index = Map.empty\<rparr>"

definition upsert_one :: "FixOutcome \<Rightarrow> fix_acc \<Rightarrow> exn + fix_acc" where
  "upsert_one item a =
     (let key = fix_key item in
      case acc_index a key of
        None \<Rightarrow>
          Inr (a\<lparr>acc_index := (acc_index a)(key \<mapsto> length (acc_fixes a)),
                 acc_fixes := acc_fixes a @ [item]\<rparr>)
      | Some existing_pos \<Rightarrow>
          if length (acc_fixes a) \<le> existing_pos then Inl (Exn ''list index out of range'')
          else
            let existing = acc_fixes a ! existing_pos in
            if fx_status existing \<noteq> Fixed \<and> fx_status item = Fixed
            then Inr (a\<lparr>acc_fixes := (acc_fixes a)[existing_pos := item]\<rparr>)
            else Inr (a\<lparr>acc_fixes := (acc_fixes a)[existing_pos := item]\<rparr>))"

fun upsert_fixes :: "FixOutcome list \<Rightarrow> fix_acc \<Rightarrow> exn + fix_acc" where
  "upsert_fixes [] a = Inr a"
| "upsert_fixes (item # rest) a =
     (case upsert_one item a of Inl e \<Rightarrow> Inl e | Inr a' \<Rightarrow> upsert_fixes rest a')"

text \<open>A sequence of upsert batches, as the iterations of one run hand them over.\<close>

fun upsert_batches :: "FixOutcome list list \<Rightarrow> fix_acc \<Rightarrow> exn + fix_acc" where
  "upsert_batches [] a = Inr a"
| "upsert_batches (b # bs) a =
     (case upsert_fixes b a of Inl e \<Rightarrow> Inl e | Inr a' \<Rightarrow> upsert_batches bs a')"


section \<open>The working tree and the things outside the program\<close>

text \<open>
  A path names a file with its text, a directory, or nothing.  The text of a file is the
  \<open>str\<close> that \<open>read()\<close> returns and \<open>write()\<close> stores; encodings, newline translation
  and permissions are not modelled, and two spellings of one location are two paths.
  Opening a directory, or creating a file where the parent directory is missing, raises
  OSError as in Python.
\<close>

datatype node = File string | Dir

type_synonym filesystem = "string \<rightharpoonup> node"

text \<open>\<open>os.path.exists\<close>, \<open>os.path.join\<close> (two arguments) and \<open>os.path.dirname\<close> on POSIX.\<close>

definition path_exists :: "filesystem \<Rightarrow> string \<Rightarrow> bool" where
  "path_exists fs p = (fs p \<noteq> None)"

definition path_join :: "string \<Rightarrow> string \<Rightarrow> string" where
  "path_join a b =
     (if startswith b ''/'' then b
      else if a = [] \<or> endswith a ''/'' then a @ b
      else a @ ''/'' @ b)"

definition dirname :: "string \<Rightarrow> string" where
  "dirname p =
     (let head = rev (dropWhile (\<lambda>c. c \<noteq> CHR ''/'') (rev p))
      in if head \<noteq> [] \<and> \<not> list_all (\<lambda>c. c = CHR ''/'') head
         then rev (dropWhile (\<lambda>c. c = CHR ''/'') (rev head))
         else head)"

definition read_text :: "filesystem \<Rightarrow> string \<Rightarrow> exn + string" where
  "read_text fs p =
     (case fs p of
        Some (File text) \<Rightarrow> Inr text
      | Some Dir \<Rightarrow> Inl (Exn (''[Errno 21] Is a directory: '' @ p))
      | None \<Rightarrow> Inl (Exn (''[Errno 2] No such file or directory: '' @ p)))"

definition write_text :: "filesystem \<Rightarrow> string \<Rightarrow> string \<Rightarrow> exn + filesystem" where
  "write_text fs p text =
     (case fs p of
        Some (File old) \<Rightarrow> Inr (fs(p \<mapsto> File text))
      | Some Dir \<Rightarrow> Inl (Exn (''[Errno 21] Is a directory: '' @ p))
      | None \<Rightarrow>
          if p = [] then Inl (Exn (''[Errno 2] No such file or directory: '' @ p))
          else if dirname p = [] then Inr (fs(p \<mapsto> File text))
          else (case fs (dirname p) of
                  Some Dir \<Rightarrow> Inr (fs(p \<mapsto> File text))
                | Some (File t) \<Rightarrow> Inl (Exn (''[Errno 20] Not a directory: '' @ p))
                | None \<Rightarrow> Inl (Exn (''[Errno 2] No such file or directory: '' @ p))))"

text \<open>
  The state the agents act on: the file system, the prompts sent to the repair oracle so
  far, the event bus of the orchestrator (the agents' logger publishes on it) and the
  rest of the outside world (the git repository, the network, the virtual environment).
\<close>

record 'x world =
  fs :: filesystem
  oracle_log :: "string list"
  event_bus :: bus
  ext :: 'x

text \<open>
  An external command or service sees the file system and the outside world, may change
  both, and returns a value or raises.
\<close>

type_synonym ('a, 'x) external = "filesystem \<times> 'x \<Rightarrow> (exn + 'a) \<times> filesystem \<times> 'x"

definition ext_call :: "('a, 'x) external \<Rightarrow> 'x world \<Rightarrow> (exn + 'a) \<times> 'x world" where
  "ext_call f w =
     (case f (fs w, ext w) of (r, fs', x') \<Rightarrow> (r, w\<lparr>fs := fs', ext := x'\<rparr>))"

text \<open>
  What the fix agent calls outside the program: the repair oracle (its answer to the
  \<open>k\<close>-th request with a given prompt; \<open>None\<close> when the request raises or times out), the
  Python parser (\<open>compile\<close> accepts the text), and the \<open>ruff check --fix\<close> subprocess run
  in the repository on one file, whose failures \<open>_run_safe\<close> swallows.
\<close>

record 'x tools =
  repair_oracle :: "nat \<Rightarrow> string \<Rightarrow> string option"
  py_compiles :: "string \<Rightarrow> bool"
  ruff_fix :: "string \<Rightarrow> string \<Rightarrow> filesystem \<times> 'x \<Rightarrow> filesystem \<times> 'x"

text \<open>\<open>str(n)\<close> for an integer, and the names of the enumerations as the code writes them.\<close>

function str_nat :: "nat \<Rightarrow> string" where
  "str_nat n = (if n < 10 then [char_of (48 + n)] else str_nat (n div 10) @ [char_of (48 + n mod 10)])"
  by pat_completeness auto
termination
  by (relation "measure id") auto

declare str_nat.simps [simp del]

definition str_int :: "int \<Rightarrow> string" where
  "str_int i = (if i < 0 then ''-'' @ str_nat (nat (- i)) else str_nat (nat i))"

fun type_name :: "BugType \<Rightarrow> string" where
  "type_name SYNTAX = ''SYNTAX''"
| "type_name INDENTATION = ''INDENTATION''"
| "type_name IMPORT = ''IMPORT''"
| "type_name TYPE_ERROR = ''TYPE_ERROR''"
| "type_name LOGIC = ''LOGIC''"
| "type_name LINTING = ''LINTING''"
| "type_name UNKNOWN = ''UNKNOWN''"

fun status_name :: "Status \<Rightarrow> string" where
  "status_name Detected = ''Detected''"
| "status_name Fixed = ''Fixed''"
| "status_name Failed = ''Failed''"

text \<open>\<open>_log\<close> of the orchestrator, which is also the logger of the fix agent.\<close>

definition log :: "string \<Rightarrow> 'x world \<Rightarrow> 'x world" where
  "log message w = w\<lparr>event_bus := snd (publish ''log'' message (event_bus w))\<rparr>"

section \<open>agents/groq\_ai\_agent.py: the repair oracle\<close>

definition build_prompt :: "string \<Rightarrow> BugType \<Rightarrow> int \<Rightarrow> string" where
  "build_prompt source bt line_no =
     ''Return only the full corrected file. No explanations.'' @ [CHR 0x0A] @
     ''Bug type: '' @ type_name bt @ [CHR 0x0A] @
     ''Likely failing line: '' @ str_int line_no @ [CHR 0x0A] @
     ''Rules:'' @ [CHR 0x0A] @
     ''- Keep structure and intent'' @ [CHR 0x0A] @
     ''- Minimal safe fixes'' @ [CHR 0x0A] @
     ''- No markdown'' @ [CHR 0x0A] @
     ''- Return complete file'' @ [CHR 0x0A, CHR 0x0A] @
     ''File:'' @ [CHR 0x0A] @ source"

text \<open>
  \<open>fix_file\<close> with \<open>fix_file_async\<close> inlined: every exception inside becomes the
  result \<open>False\<close>.
\<close>

definition fix_file ::
  "'x tools \<Rightarrow> string \<Rightarrow> BugType \<Rightarrow> int \<Rightarrow> 'x world \<Rightarrow> bool \<times> 'x world" where
  "fix_file T file_path bt line_no w =
     (if \<not> path_exists (fs w) file_path then (False, w)
      else case read_text (fs w) file_path of
        Inl e \<Rightarrow> (False, w)
      | Inr source \<Rightarrow>
          let prompt = build_prompt source bt line_no;
              w1 = w\<lparr>oracle_log := oracle_log w @ [prompt]\<rparr>
          in (case repair_oracle T (length (oracle_log w)) prompt of
                None \<Rightarrow> (False, w1)
              | Some output_text \<Rightarrow>
                  let fixed = strip output_text @ [CHR 0x0A] in
                  if fixed = [] \<or> strip fixed = strip source then (False, w1)
                  else if endswith file_path ''.py'' \<and> \<not> py_compiles T fixed then (False, w1)
                  else (case write_text (fs w1) file_path fixed of
                          Inl e \<Rightarrow> (False, w1)
                        | Inr fs' \<Rightarrow> (True, w1\<lparr>fs := fs'\<rparr>))))"

section \<open>agents/fix\_agent.py: FixAgent\<close>

text \<open>The dict the orchestrator queues for the fix agent: a bug record with two more keys.\<close>

record queued_bug = BugRecord +
  failed_attempts :: int
  force_groq :: bool

text \<open>
  The four strategies that patch one line share their frame: read the lines, check the
  line number, rewrite, and write the file only when something changed.
\<close>

definition fix_syntax_issue :: "string \<Rightarrow> int \<Rightarrow> 'x world \<Rightarrow> (exn + bool) \<times> 'x world" where
  "fix_syntax_issue file_path line_no w =
     (case read_text (fs w) file_path of
        Inl e \<Rightarrow> (Inl e, w)
      | Inr text \<Rightarrow>
          let lines = readlines text in
          if line_no \<le> 0 \<or> int (length lines) < line_no then (Inr False, w)
          else (case syntax_rewrite lines (nat (line_no - 1)) of
                  Inl e \<Rightarrow> (Inl e, w)
                | Inr (lines', changed) \<Rightarrow>
                    if \<not> changed then (Inr False, w)
                    else (case write_text (fs w) file_path (writelines lines') of
                            Inl e \<Rightarrow> (Inl e, w)
                          | Inr fs' \<Rightarrow> (Inr True, w\<lparr>fs := fs'\<rparr>))))"

definition fix_indentation_issue :: "string \<Rightarrow> int \<Rightarrow> 'x world \<Rightarrow> (exn + bool) \<times> 'x world" where
  "fix_indentation_issue file_path line_no w =
     (case read_text (fs w) file_path of
        Inl e \<Rightarrow> (Inl e, w)
      | Inr text \<Rightarrow>
          let lines = readlines text in
          if line_no \<le> 0 \<or> int (length lines) < line_no then (Inr False, w)
          else (case indentation_rewrite lines line_no of
                  (updated, changed) \<Rightarrow>
                    let lines' = lines[nat (line_no - 1) := updated] in
                    if \<not> changed then (Inr False, w)
                    else (case write_text (fs w) file_path (writelines lines') of
                            Inl e \<Rightarrow> (Inl e, w)
                          | Inr fs' \<Rightarrow> (Inr True, w\<lparr>fs := fs'\<rparr>))))"

definition cached_python :: "string \<Rightarrow> string" where
  "cached_python repo_path = path_join (path_join (path_join repo_path ''.venv'') ''bin'') ''python''"

definition fix_with_ruff ::
  "'x tools \<Rightarrow> string \<Rightarrow> string \<Rightarrow> 'x world \<Rightarrow> (exn + bool) \<times> 'x world" where
  "fix_with_ruff T repo_path rel_file w =
     (let target_file = path_join repo_path rel_file in
      if \<not> path_exists (fs w) target_file then (Inr False, w)
      else (case read_text (fs w) target_file of
              Inl e \<Rightarrow> (Inl e, w)
            | Inr text_before \<Rightarrow>
                let python_bin = cached_python repo_path in
                if \<not> path_exists (fs w) python_bin then (Inr False, w)
                else (case ruff_fix T repo_path rel_file (fs w, ext w) of
                        (fs', x') \<Rightarrow>
                          let w' = w\<lparr>fs := fs', ext := x'\<rparr> in
                          (case read_text fs' target_file of
                             Inl e \<Rightarrow> (Inl e, w')
                           | Inr text_after \<Rightarrow> (Inr (text_before \<noteq> text_after), w')))))"

definition fix_type_error :: "string \<Rightarrow> int \<Rightarrow> 'x world \<Rightarrow> (exn + bool) \<times> 'x world" where
  "fix_type_error file_path line_no w =
     (case read_text (fs w) file_path of
        Inl e \<Rightarrow> (Inl e, w)
      | Inr text \<Rightarrow>
          let lines = readlines text in
          if line_no \<le> 0 \<or> int (length lines) < line_no then (Inr False, w)
          else (case type_rewrite (lines ! nat (line_no - 1)) of
                  (line, changed) \<Rightarrow>
                    if \<not> changed then (Inr False, w)
                    else (case write_text (fs w) file_path
                                 (writelines (lines[nat (line_no - 1) := line])) of
                            Inl e \<Rightarrow> (Inl e, w)
                          | Inr fs' \<Rightarrow> (Inr True, w\<lparr>fs := fs'\<rparr>))))"

definition fix_logic_issue :: "string \<Rightarrow> int \<Rightarrow> 'x world \<Rightarrow> (exn + bool) \<times> 'x world" where
  "fix_logic_issue file_path line_no w =
     (case read_text (fs w) file_path of
        Inl e \<Rightarrow> (Inl e, w)
      | Inr text \<Rightarrow>
          let lines = readlines text in
          if line_no \<le> 0 \<or> int (length lines) < line_no then (Inr False, w)
          else (case logic_rewrite (lines ! nat (line_no - 1)) of
                  (line, changed) \<Rightarrow>
                    if \<not> changed then (Inr False, w)
                    else (case write_text (fs w) file_path
                                 (writelines (lines[nat (line_no - 1) := line])) of
                            Inl e \<Rightarrow> (Inl e, w)
                          | Inr fs' \<Rightarrow> (Inr True, w\<lparr>fs := fs'\<rparr>))))"

definition fix_missing_init :: "string \<Rightarrow> string \<Rightarrow> 'x world \<Rightarrow> (exn + bool) \<times> 'x world" where
  "fix_missing_init repo_path module_file w =
     (let module_dir = dirname (path_join repo_path module_file) in
      if module_dir = [] then (Inr False, w)
      else
        let init_file = path_join module_dir ''__init__.py'' in
        if path_exists (fs w) init_file then (Inr False, w)
        else (case write_text (fs w) init_file [] of
                Inl e \<Rightarrow> (Inl e, w)
              | Inr fs' \<Rightarrow> (Inr True, w\<lparr>fs := fs'\<rparr>)))"

text \<open>The \<open>if\<close>/\<open>elif\<close> chain at the head of the loop body of \<open>apply_fixes\<close>.\<close>

definition deterministic_fix ::
  "'x tools \<Rightarrow> string \<Rightarrow> queued_bug \<Rightarrow> 'x world \<Rightarrow> (exn + bool) \<times> 'x world" where
  "deterministic_fix T repo_path bug w =
     (let bt = bug_type bug; file_path = path_join repo_path (bug_file bug) in
      if bt = SYNTAX \<and> path_exists (fs w) file_path
        then fix_syntax_issue file_path (bug_line bug) w
      else if bt = INDENTATION \<and> path_exists (fs w) file_path
        then fix_indentation_issue file_path (bug_line bug) w
      else if bt = LINTING \<and> path_exists (fs w) file_path
        then fix_with_ruff T repo_path (bug_file bug) w
      else if bt = TYPE_ERROR \<and> path_exists (fs w) file_path
        then fix_type_error file_path (bug_line bug) w
      else if bt = LOGIC \<and> path_exists (fs w) file_path
        then fix_logic_issue file_path (bug_line bug) w
      else if bt = IMPORT
        then fix_missing_init repo_path (bug_file bug) w
      else (Inr False, w))"

text \<open>The oracle timeout \<open>self.groq.timeout\<close> that the log line quotes.\<close>

definition groq_timeout :: int where
  "groq_timeout = 60"

text \<open>The rest of the loop body: the oracle fallback and the outcome.\<close>

definition fix_one ::
  "'x tools \<Rightarrow> string \<Rightarrow> queued_bug \<Rightarrow> 'x world \<Rightarrow> (exn + FixOutcome) \<times> 'x world" where
  "fix_one T repo_path bug w =
     (let bt = bug_type bug; file_path = path_join repo_path (bug_file bug) in
      case deterministic_fix T repo_path bug w of
        (Inl e, w1) \<Rightarrow> (Inl e, w1)
      | (Inr fixed0, w1) \<Rightarrow>
          (case (if \<not> fixed0 \<and> bt \<noteq> UNKNOWN \<and> bug_file bug \<noteq> ''<unknown>''
                 then (case fix_file T file_path bt (bug_line bug)
                              (log (''[AGENT][GROQ] Attempting fix for '' @ type_name bt @ '' at '' @
                                    bug_file bug @ '':'' @ str_int (bug_line bug) @
                                    '' (timeout '' @ str_int groq_timeout @ ''s)'') w1) of
                         (fixed1, w2) \<Rightarrow>
                           (fixed1,
                            log (if fixed1 then ''[AGENT] Fix applied''
                                 else ''[AGENT] Fix failed, no changes, or timed out'') w2))
                 else if bt = UNKNOWN \<or> bug_file bug = ''<unknown>''
                 then (fixed0,
                       log ''[AGENT] Skipping Groq for UNKNOWN failure; no concrete file/line target'' w1)
                 else (fixed0, w1)) of
             (fixed, w3) \<Rightarrow>
               (Inr \<lparr>fx_file = bug_file bug, fx_bug_type = bt, fx_line = bug_line bug,
                     fx_status = (if fixed then Fixed else Failed),
                     fx_commit_message =
                       (if fixed then ''[AI-AGENT] Fix '' @ type_name bt @ '' error''
                        else ''[AI-AGENT] Could not auto-fix '' @ type_name bt)\<rparr>,
                w3)))"

fun apply_fixes ::
  "'x tools \<Rightarrow> string \<Rightarrow> queued_bug list \<Rightarrow> 'x world \<Rightarrow> (exn + FixOutcome list) \<times> 'x world" where
  "apply_fixes T repo_path [] w = (Inr [], w)"
| "apply_fixes T repo_path (bug # bugs) w =
     (case fix_one T repo_path bug w of
        (Inl e, w1) \<Rightarrow> (Inl e, w1)
      | (Inr item, w1) \<Rightarrow>
          (case apply_fixes T repo_path bugs w1 of
             (Inl e, w2) \<Rightarrow> (Inl e, w2)
           | (Inr items, w2) \<Rightarrow> (Inr (item # items), w2)))"

section \<open>utils/status\_manager.py: StatusManager\<close>

text \<open>
  The dict \<open>_state\<close> with its optional key \<open>error\<close>, and the step time line.  Run states,
  step names and step statuses are the strings of the code.  Every method runs under the
  lock of the manager; \<open>snapshot\<close> copies the whole record.
\<close>

record StatusManager =
  sm_state :: string
  sm_current_step :: string
  sm_iteration :: int
  sm_total_iterations :: int
  sm_failures :: int
  sm_fixes_applied :: int
  sm_branch_name :: string
  sm_error :: "string option"
  sm_timeline :: "(string \<times> string) list"

definition StatusManager_init :: StatusManager where
  "StatusManager_init =
     \<lparr>sm_state = ''IDLE'', sm_current_step = [], sm_iteration = 0, sm_total_iterations = 0,
      sm_failures = 0, sm_fixes_applied = 0, sm_branch_name = [], sm_error = None,
      sm_timeline = []\<rparr>"

definition reset :: "int \<Rightarrow> string \<Rightarrow> StatusManager \<Rightarrow> StatusManager" where
  "reset total_iterations branch_arg s =
     s\<lparr>sm_state := ''RUNNING'', sm_current_step := ''Starting'', sm_iteration := 0,
       sm_total_iterations := total_iterations, sm_failures := 0, sm_fixes_applied := 0,
       sm_branch_name := branch_arg, sm_timeline := []\<rparr>"

definition set_step :: "string \<Rightarrow> int option \<Rightarrow> StatusManager \<Rightarrow> StatusManager" where
  "set_step step iteration_arg s =
     (let s1 = (case iteration_arg of None \<Rightarrow> s | Some n \<Rightarrow> s\<lparr>sm_iteration := n\<rparr>)
      in s1\<lparr>sm_current_step := step,
             sm_timeline := sm_timeline s1 @ [(step, ''In-Progress'')]\<rparr>)"

definition mark_step :: "string \<Rightarrow> string \<Rightarrow> StatusManager \<Rightarrow> StatusManager" where
  "mark_step step step_status s = s\<lparr>sm_timeline := sm_timeline s @ [(step, step_status)]\<rparr>"

definition update_counts :: "int option \<Rightarrow> int option \<Rightarrow> StatusManager \<Rightarrow> StatusManager" where
  "update_counts failures_arg fixes_applied_arg s =
     (let s1 = (case failures_arg of None \<Rightarrow> s | Some n \<Rightarrow> s\<lparr>sm_failures := n\<rparr>)
      in case fixes_applied_arg of None \<Rightarrow> s1 | Some n \<Rightarrow> s1\<lparr>sm_fixes_applied := n\<rparr>)"

definition set_state :: "string \<Rightarrow> string \<Rightarrow> StatusManager \<Rightarrow> StatusManager" where
  "set_state state_arg error_arg s =
     (if error_arg \<noteq> [] then s\<lparr>sm_state := state_arg, sm_error := Some error_arg\<rparr>
      else s\<lparr>sm_state := state_arg, sm_error := None\<rparr>)"

definition set_branch :: "string \<Rightarrow> StatusManager \<Rightarrow> StatusManager" where
  "set_branch branch_arg s = s\<lparr>sm_branch_name := branch_arg\<rparr>"

definition snapshot :: "StatusManager \<Rightarrow> StatusManager" where
  "snapshot s = s"

section \<open>utils/results\_manager.py: the run summary\<close>

text \<open>
  The dict \<open>data\<close> of \<open>ResultsManager.generate\<close>, without its time fields.  Writing it
  to \<open>results/results.json\<close> is an external effect.
\<close>

record run_summary =
  rsm_repo_url :: string
  rsm_team_name :: string
  rsm_leader_name :: string
  rsm_branch_created :: string
  rsm_total_failures :: int
  rsm_total_fixes :: int
  rsm_total_commits :: int
  rsm_final_status :: string
  rsm_iterations :: int
  rsm_retry_limit :: int
  rsm_timeline :: "(int \<times> string) list"

section \<open>orchestrator.py: Orchestrator\<close>

text \<open>
  The collaborators outside the core: repository acquisition, branching, the test and
  analysis pass, commit and push, writing the results file, building the archive, and
  removing the working copy.
\<close>

record 'x env =
  tools :: "'x tools"
  clone :: "string \<Rightarrow> (string, 'x) external"
  create_branch :: "string \<Rightarrow> string \<Rightarrow> string \<Rightarrow> (string, 'x) external"
  run_tests :: "string \<Rightarrow> (string option, 'x) external"
  commit_push :: "string \<Rightarrow> FixOutcome list \<Rightarrow> (bool, 'x) external"
  write_results :: "run_summary \<Rightarrow> (unit, 'x) external"
  archive :: "string \<Rightarrow> (unit, 'x) external"
  cleanup_repo :: "string \<Rightarrow> (unit, 'x) external"

text \<open>
  The dict \<open>self.status\<close> (without its time fields) and the attributes of the
  orchestrator; entries of \<open>self.timeline\<close> are pairs of the run number and the status.
\<close>

record run_status =
  rs_state :: string
  rs_error :: "string option"

record 'x orch =
  world :: "'x world"
  status_mgr :: StatusManager
  timeline :: "(int \<times> string) list"
  fix_store :: fix_acc
  bug_fail_counts :: "ident_key \<rightharpoonup> int"
  status :: run_status

definition Orchestrator :: "filesystem \<Rightarrow> 'x \<Rightarrow> 'x orch" where
  "Orchestrator fs0 x0 =
     \<lparr>world = \<lparr>fs = fs0, oracle_log = [], event_bus = RuntimeEventBus 2000, ext = x0\<rparr>,
      status_mgr = StatusManager_init,
      timeline = [],
      fix_store = empty_acc,
      bug_fail_counts = Map.empty,
      status = \<lparr>rs_state = ''IDLE'', rs_error = None\<rparr>\<rparr>"

definition max_bug_attempts :: int where
  "max_bug_attempts = 2"

text \<open>The local variables of \<open>run\<close> that outlive the loop.\<close>

record run_locals =
  branch :: string
  path :: string
  total_failures :: int
  total_fixes :: int
  total_commits :: int

definition olog :: "string \<Rightarrow> 'x orch \<Rightarrow> 'x orch" where
  "olog message ob = ob\<lparr>world := log message (world ob)\<rparr>"

definition on_status_mgr :: "(StatusManager \<Rightarrow> StatusManager) \<Rightarrow> 'x orch \<Rightarrow> 'x orch" where
  "on_status_mgr f ob = ob\<lparr>status_mgr := f (status_mgr ob)\<rparr>"

text \<open>\<open>str.splitlines\<close>, for the snippet of an unparsed failure text.\<close>

definition line_boundary :: "char \<Rightarrow> bool" where
  "line_boundary c =
     (let n = (of_char c :: nat)
      in (10 \<le> n \<and> n \<le> 13) \<or> (28 \<le> n \<and> n \<le> 30) \<or> n = 133)"

fun splitlines_from :: "string \<Rightarrow> string \<Rightarrow> string list" where
  "splitlines_from cur [] = (if cur = [] then [] else [cur])"
| "splitlines_from cur [c] = (if line_boundary c then [cur] else [cur @ [c]])"
| "splitlines_from cur (c # d # cs) =
     (if c = CHR 0x0D \<and> d = CHR 0x0A then cur # splitlines_from [] cs
      else if line_boundary c then cur # splitlines_from [] (d # cs)
      else splitlines_from (cur @ [c]) (d # cs))"

definition splitlines :: "string \<Rightarrow> string list" where
  "splitlines s = splitlines_from [] s"

text \<open>The loop over the classified bugs that queues them for the fix agent.\<close>

definition queue_bug :: "BugRecord \<Rightarrow> int \<Rightarrow> bool \<Rightarrow> queued_bug" where
  "queue_bug bug n forced =
     \<lparr>bug_file = bug_file bug, bug_type = bug_type bug, bug_line = bug_line bug,
      bug_status = bug_status bug, failed_attempts = n, force_groq = forced\<rparr>"

definition escalate :: "(ident_key \<rightharpoonup> int) \<Rightarrow> BugRecord list \<Rightarrow> queued_bug list" where
  "escalate counts bugs =
     map (\<lambda>bug.
            let key = bug_key bug;
                n = (case counts key of None \<Rightarrow> 0 | Some c \<Rightarrow> c)
            in if max_bug_attempts \<le> n then queue_bug bug n True else queue_bug bug n False)
         bugs"

text \<open>The loop over the outcomes that clears or increments the failure counters.\<close>

fun count_outcomes :: "FixOutcome list \<Rightarrow> (ident_key \<rightharpoonup> int) \<Rightarrow> (ident_key \<rightharpoonup> int)" where
  "count_outcomes [] counts = counts"
| "count_outcomes (item # rest) counts =
     count_outcomes rest
       (let key = fix_key item in
        if fx_status item = Fixed then counts(key := None)
        else counts(key \<mapsto> (case counts key of None \<Rightarrow> 0 | Some c \<Rightarrow> c) + 1))"

fun log_all :: "string list \<Rightarrow> 'x orch \<Rightarrow> 'x orch" where
  "log_all [] ob = ob"
| "log_all (message # rest) ob = log_all rest (olog message ob)"

definition failure_lines :: "BugRecord list \<Rightarrow> string list" where
  "failure_lines bugs =
     map (\<lambda>(idx, bug). '' Failure #'' @ str_int (int idx) @ '': '' @ type_name (bug_type bug) @
            '' at '' @ bug_file bug @ '':'' @ str_int (bug_line bug))
         (zip [1 ..< Suc (length bugs)] bugs)"

definition fix_lines :: "FixOutcome list \<Rightarrow> string list" where
  "fix_lines items =
     map (\<lambda>(idx, item). '' Fix #'' @ str_int (int idx) @ '': '' @ status_name (fx_status item) @
            '' - '' @ type_name (fx_bug_type item) @ '' '' @ fx_file item @ '':'' @
            str_int (fx_line item))
         (zip [1 ..< Suc (length items)] items)"

definition count_fixed :: "FixOutcome list \<Rightarrow> int" where
  "count_fixed items = int (length (filter (\<lambda>f. fx_status f = Fixed) items))"

text \<open>
  The body of the \<open>for\<close> loop from bug detection on, for the non-empty failure text of
  iteration \<open>i\<close> (counted from 0).  The result \<open>False\<close> says that the loop goes on.
\<close>

definition repair_pass ::
  "'x env \<Rightarrow> nat \<Rightarrow> string \<Rightarrow> 'x orch \<times> run_locals \<Rightarrow> (exn + bool) \<times> 'x orch \<times> run_locals" where
  "repair_pass E i failures st =
     (let ob = fst st; l = snd st;
          ob = on_status_mgr (set_step ''Bug Detection'' (Some (int i + 1))) ob;
          bugs = parse failures;
          ob = on_status_mgr (update_counts (Some (int (length bugs))) None) ob;
          ob = (if bugs \<noteq> []
                then log_all (failure_lines bugs)
                       (olog (''Detected '' @ str_int (int (length bugs)) @ '' failures'') ob)
                else
                  let ob = olog ''Tests failed but no parseable failures; marking UNKNOWN'' ob;
                      snippet = strip (join [CHR 0x0A] (take 5 (splitlines failures)))
                  in if snippet \<noteq> [] then olog ('' Raw failure snippet: '' @ snippet) ob else ob);
          attemptable = escalate (bug_fail_counts ob) bugs;
          ob = on_status_mgr (set_step ''Fixing'' (Some (int i + 1))) ob
      in (case apply_fixes (tools E) (path l) attemptable (world ob) of
            (Inl e, w) \<Rightarrow> (Inl e, ob\<lparr>world := w\<rparr>, l)
          | (Inr items, w) \<Rightarrow>
              (let ob = ob\<lparr>world := w,
                          bug_fail_counts := count_outcomes items (bug_fail_counts ob)\<rparr>;
                   ob = log_all (fix_lines items) ob;
                   ob = on_status_mgr (update_counts None (Some (count_fixed items))) ob;
                   ob = on_status_mgr (mark_step ''Fixing'' ''Done'') ob;
                   ob = on_status_mgr (set_step ''Commit'' (Some (int i + 1))) ob
               in (case ext_call (commit_push E (path l) items) (world ob) of
                     (Inl e, w) \<Rightarrow> (Inl e, ob\<lparr>world := w\<rparr>, l)
                   | (Inr committed, w) \<Rightarrow>
                       (let ob = ob\<lparr>world := w\<rparr>;
                            l = (if committed then l\<lparr>total_commits := total_commits l + 1\<rparr> else l);
                            ob = (if committed
                                  then olog (''Committed fixes: '' @ str_int (count_fixed items) @
                                             '' (total commits: '' @ str_int (total_commits l) @ '')'') ob
                                  else olog ''No changes to commit'' ob);
                            ob = on_status_mgr (mark_step ''Commit'' ''Done'') ob;
                            l = l\<lparr>total_failures := total_failures l + int (length bugs),
                                  total_fixes := total_fixes l + count_fixed items\<rparr>
                        in (case upsert_fixes items (fix_store ob) of
                              Inl e \<Rightarrow> (Inl e, ob, l)
                            | Inr a \<Rightarrow> (Inr False, ob\<lparr>fix_store := a\<rparr>, l)))))))"

text \<open>
  One iteration of the \<open>for\<close> loop.  The result \<open>True\<close> is the \<open>break\<close> after a passing
  test run (\<open>None\<close> or the empty text).
\<close>

definition iteration ::
  "'x env \<Rightarrow> int \<Rightarrow> nat \<Rightarrow> 'x orch \<times> run_locals \<Rightarrow> (exn + bool) \<times> 'x orch \<times> run_locals" where
  "iteration E retry_limit i st =
     (let ob = fst st; l = snd st;
          ob = on_status_mgr (set_step ''Testing'' (Some (int i + 1))) ob
      in (case ext_call (run_tests E (path l)) (world ob) of
            (Inl e, w) \<Rightarrow> (Inl e, ob\<lparr>world := w\<rparr>, l)
          | (Inr failures, w) \<Rightarrow>
              (let ob = ob\<lparr>world := w\<rparr> in
               if failures = None \<or> failures = Some []
               then
                 (let ob = olog (''Tests run '' @ str_int (int i + 1) @ ''/'' @ str_int retry_limit @
                                 '': PASSED'') ob
                  in (Inr True, ob\<lparr>timeline := timeline ob @ [(int i + 1, ''PASSED'')]\<rparr>, l))
               else
                 (let ob = ob\<lparr>timeline := timeline ob @ [(int i + 1, ''FAILED'')]\<rparr>;
                      ob = olog (''Tests run '' @ str_int (int i + 1) @ ''/'' @ str_int retry_limit @
                                 '': FAILED'') ob
                  in repair_pass E i (the failures) (ob, l)))))"

text \<open>\<open>for i in range(retry_limit)\<close>, over the list of the indices still to run.\<close>

fun run_loop ::
  "'x env \<Rightarrow> int \<Rightarrow> nat list \<Rightarrow> 'x orch \<times> run_locals \<Rightarrow> (exn + unit) \<times> 'x orch \<times> run_locals" where
  "run_loop E retry_limit [] st = (Inr (), st)"
| "run_loop E retry_limit (i # rest) st =
     (case iteration E retry_limit i st of
        (Inl e, st') \<Rightarrow> (Inl e, st')
      | (Inr True, st') \<Rightarrow> (Inr (), st')
      | (Inr False, st') \<Rightarrow> run_loop E retry_limit rest st')"

text \<open>\<open>ResultsManager.generate\<close> and \<open>_archive_repo\<close>, up to their external effects.\<close>

definition generate ::
  "'x env \<Rightarrow> string \<Rightarrow> string \<Rightarrow> string \<Rightarrow> int \<Rightarrow> 'x orch \<times> run_locals \<Rightarrow>
   (exn + unit) \<times> 'x world" where
  "generate E repo_url team leader retry_limit st =
     (let ob = fst st; l = snd st in
      ext_call
        (write_results E
           \<lparr>rsm_repo_url = repo_url, rsm_team_name = team, rsm_leader_name = leader,
            rsm_branch_created = branch l, rsm_total_failures = total_failures l,
            rsm_total_fixes = total_fixes l, rsm_total_commits = total_commits l,
            rsm_final_status =
              (if timeline ob \<noteq> [] then snd (last (timeline ob)) else ''NO_RUNS''),
            rsm_iterations = int (length (timeline ob)), rsm_retry_limit = retry_limit,
            rsm_timeline = timeline ob\<rparr>)
        (world ob))"

definition archive_repo :: "'x env \<Rightarrow> string \<Rightarrow> 'x world \<Rightarrow> (exn + unit) \<times> 'x world" where
  "archive_repo E repo_path w =
     (if repo_path = [] then (Inr (), w)
      else if \<not> path_exists (fs w) repo_path then (Inr (), w)
      else ext_call (archive E repo_path) w)"

text \<open>
  The body of the \<open>try\<close> statement of \<open>run\<close>; \<open>finish_run\<close> is its part after the loop.
\<close>

definition finish_run ::
  "'x env \<Rightarrow> string \<Rightarrow> string \<Rightarrow> string \<Rightarrow> int \<Rightarrow> 'x orch \<times> run_locals \<Rightarrow>
   (exn + unit) \<times> 'x orch \<times> run_locals" where
  "finish_run E repo_url team leader retry_limit st =
     (let ob = fst st; l = snd st in
      (case generate E repo_url team leader retry_limit (ob, l) of
         (Inl e, w) \<Rightarrow> (Inl e, ob\<lparr>world := w\<rparr>, l)
       | (Inr u, w) \<Rightarrow>
           (case archive_repo E (path l) w of
              (Inl e, w) \<Rightarrow> (Inl e, ob\<lparr>world := w\<rparr>, l)
            | (Inr u, w) \<Rightarrow>
                (let ob = ob\<lparr>world := w,
                            status := \<lparr>rs_state = ''COMPLETED'', rs_error = None\<rparr>\<rparr>;
                     ob = on_status_mgr (set_state ''COMPLETED'' []) ob;
                     ob = on_status_mgr
                            (set_step ''Completed'' (Some (int (length (timeline ob))))) ob
                 in (Inr (), ob, l)))))"

definition run_try ::
  "'x env \<Rightarrow> string \<Rightarrow> string \<Rightarrow> string \<Rightarrow> int \<Rightarrow> 'x orch \<times> run_locals \<Rightarrow>
   (exn + unit) \<times> 'x orch \<times> run_locals" where
  "run_try E repo_url team leader retry_limit st =
     (let ob = fst st; l = snd st;
          ob = olog ''Cloning repository...'' ob;
          ob = on_status_mgr (set_step ''Cloning'' (Some 0)) ob
      in (case ext_call (clone E repo_url) (world ob) of
            (Inl e, w) \<Rightarrow> (Inl e, ob\<lparr>world := w\<rparr>, l)
          | (Inr p, w) \<Rightarrow>
              (let ob = ob\<lparr>world := w\<rparr>; l = l\<lparr>path := p\<rparr> in
               (case ext_call (create_branch E p team leader) (world ob) of
                  (Inl e, w) \<Rightarrow> (Inl e, ob\<lparr>world := w\<rparr>, l)
                | (Inr b, w) \<Rightarrow>
                    (let ob = ob\<lparr>world := w\<rparr>; l = l\<lparr>branch := b\<rparr>;
                         ob = on_status_mgr (set_branch b) ob;
                         ob = on_status_mgr (mark_step ''Clone'' ''Done'') ob
                     in (case run_loop E retry_limit [0 ..< nat retry_limit] (ob, l) of
                           (Inl e, st') \<Rightarrow> (Inl e, st')
                         | (Inr u, st') \<Rightarrow>
                             finish_run E repo_url team leader retry_limit st'))))))"

text \<open>The state in which the \<open>try\<close> statement starts: the resets at the head of \<open>run\<close>.\<close>

definition run_start :: "int \<Rightarrow> 'x orch \<Rightarrow> 'x orch \<times> run_locals" where
  "run_start retry_limit ob =
     (ob\<lparr>timeline := [], fix_store := empty_acc, bug_fail_counts := Map.empty,
         status_mgr := reset retry_limit [] (status_mgr ob),
         status := \<lparr>rs_state = ''RUNNING'', rs_error = None\<rparr>\<rparr>,
      \<lparr>branch = [], path = [], total_failures = 0, total_fixes = 0, total_commits = 0\<rparr>)"

text \<open>
  \<open>run\<close>: the \<open>try\<close> body, the handler of \<open>Exception\<close>, and the \<open>finally\<close> block.  The
  first component of the result is the exception that leaves \<open>run\<close>, if any.
\<close>

definition run ::
  "'x env \<Rightarrow> string \<Rightarrow> string \<Rightarrow> string \<Rightarrow> int \<Rightarrow> 'x orch \<Rightarrow> exn option \<times> 'x orch" where
  "run E repo_url team leader retry_limit ob0 =
     (let res = run_try E repo_url team leader retry_limit (run_start retry_limit ob0);
          ob = fst (snd res); l = snd (snd res);
          handled = (case fst res of
                       Inr u \<Rightarrow> (None, ob)
                     | Inl (Exn msg) \<Rightarrow>
                         (None,
                          on_status_mgr (set_state ''FAILED'' msg)
                            (ob\<lparr>status := \<lparr>rs_state = ''FAILED'', rs_error = Some msg\<rparr>\<rparr>))
                     | Inl BaseExn \<Rightarrow> (Some BaseExn, ob));
          pending = fst handled; ob = snd handled;
          ob = (if rs_state (status ob) = ''RUNNING''
                then on_status_mgr (set_state ''FAILED'' ''Unknown termination'')
                       (ob\<lparr>status := (status ob)\<lparr>rs_state := ''FAILED'',
                              rs_error := Some ''Unknown termination''\<rparr>\<rparr>)
                else ob)
      in if path l \<noteq> []
         then (case ext_call (cleanup_repo E (path l)) (world ob) of
                 (Inl BaseExn, w) \<Rightarrow> (Some BaseExn, ob\<lparr>world := w\<rparr>)
               | (r', w) \<Rightarrow> (pending, ob\<lparr>world := w\<rparr>))
         else (pending, ob))"

section \<open>Properties of the event bus\<close>

text \<open>Invariant of every bus a run can build: the retained ids are the last ones handed out.\<close>

definition bus_inv :: "bus \<Rightarrow> bool" where
  "bus_inv b \<longleftrightarrow>
     length (events b) \<le> max_events b \<and>
     map ev_id (events b) = [next_id b - int (length (events b)) .. next_id b - 1]"

lemma upto_snoc: "i \<le> j + 1 \<Longrightarrow> [i .. j + 1] = [i .. j] @ [j + 1]"
  by (simp add: upto_rec2)

lemma upto_tl: "i \<le> j \<Longrightarrow> tl [i .. j] = [i + 1 .. j]"
  by (simp add: upto_rec1)

lemma bus_inv_init: "bus_inv (RuntimeEventBus cap)"
  by (simp add: bus_inv_def RuntimeEventBus_def)

lemma bus_inv_publish:
  assumes "bus_inv b"
  shows "bus_inv (snd (publish ty msg b))"
proof -
  let ?n = "next_id b" and ?k = "int (length (events b))"
  from assms have len: "length (events b) \<le> max_events b"
    and ids: "map ev_id (events b) = [?n - ?k .. ?n - 1]"
    by (simp_all add: bus_inv_def)
  have app: "map ev_id (events b) @ [?n] = [?n - ?k .. ?n]"
    using upto_snoc [of "?n - ?k" "?n - 1"] ids by simp
  show ?thesis
  proof (cases "max_events b < Suc (length (events b))")
    case True
    then have eq: "length (events b) = max_events b" using len by simp
    have "tl (map ev_id (events b) @ [?n]) = [?n - ?k + 1 .. ?n]"
      unfolding app by (rule upto_tl) simp
    moreover have "?n - ?k + 1 = ?n + 1 - ?k" by simp
    ultimately have "tl (map ev_id (events b) @ [?n]) = [?n + 1 - ?k .. ?n]"
      by (simp only:)
    then show ?thesis
      using True eq
      by (simp add: bus_inv_def publish_def deque_append_def Let_def map_tl)
  next
    case False
    then show ?thesis
      using app by (simp add: bus_inv_def publish_def deque_append_def Let_def)
  qed
qed

lemma bus_inv_publish_all: "bus_inv b \<Longrightarrow> bus_inv (publish_all ms b)"
  by (induction ms b rule: publish_all.induct) (simp_all add: bus_inv_publish)

lemma max_events_publish_all: "max_events (publish_all ms b) = max_events b"
  by (induction ms b rule: publish_all.induct) (simp_all add: publish_def Let_def)

lemma next_id_publish_all: "next_id (publish_all ms b) = next_id b + int (length ms)"
  by (induction ms b rule: publish_all.induct) (simp_all add: publish_def Let_def)

lemma length_events_publish:
  "length (events b) \<le> max_events b \<Longrightarrow>
   length (events (snd (publish ty msg b))) = min (Suc (length (events b))) (max_events b)"
  by (auto simp: publish_def deque_append_def Let_def)

lemma length_events_publish_all:
  "length (events b) \<le> max_events b \<Longrightarrow>
   length (events (publish_all ms b)) = min (length (events b) + length ms) (max_events b)"
proof (induction ms b rule: publish_all.induct)
  case (1 b)
  then show ?case by simp
next
  case (2 ty msg ms b)
  let ?b' = "snd (publish ty msg b)"
  have l: "length (events ?b') = min (Suc (length (events b))) (max_events b)"
    using "2.prems" by (rule length_events_publish)
  then have "length (events ?b') \<le> max_events ?b'"
    by (simp add: publish_def Let_def)
  from "2.IH" [OF this] l show ?case
    by (simp add: publish_def Let_def min_def)
qed

lemma advance_cursor_ge: "c \<le> advance_cursor c evs"
  unfolding advance_cursor_def
proof (induction evs arbitrary: c)
  case Nil
  show ?case by simp
next
  case (Cons x xs)
  have "c \<le> max c (ev_id x)" by simp
  also have "\<dots> \<le> foldl (\<lambda>cur e. max cur (ev_id e)) (max c (ev_id x)) xs" by (rule Cons.IH)
  finally show ?case by simp
qed

lemma advance_cursor_bound: "e \<in> set evs \<Longrightarrow> ev_id e \<le> advance_cursor c evs"
  unfolding advance_cursor_def
proof (induction evs arbitrary: c)
  case Nil
  then show ?case by simp
next
  case (Cons x xs)
  show ?case
  proof (cases "e = x")
    case True
    have "max c (ev_id x) \<le> foldl (\<lambda>cur e. max cur (ev_id e)) (max c (ev_id x)) xs"
      using advance_cursor_ge [of "max c (ev_id x)" xs] by (simp add: advance_cursor_def)
    with True show ?thesis by simp
  next
    case False
    with Cons show ?thesis by simp
  qed
qed

lemma get_since_sorted:
  assumes "bus_inv b"
  shows "sorted_wrt (<) (map ev_id (get_since c b))"
proof -
  have "sorted_wrt (<) (map ev_id (events b))"
    using assms by (simp add: bus_inv_def sorted_wrt_upto)
  then have "sorted_wrt (\<lambda>x y. ev_id x < ev_id y) (events b)"
    by (simp add: sorted_wrt_map)
  then have "sorted_wrt (\<lambda>x y. ev_id x < ev_id y) (get_since c b)"
    unfolding get_since_def by (rule sorted_wrt_filter)
  then show ?thesis by (simp add: sorted_wrt_map)
qed

text \<open>
  C9.  On every bus built by publishing, \<open>get_since c\<close> returns only events with an id
  above \<open>c\<close>, in strictly increasing id order; and when the reader has moved its cursor
  to the largest id it has seen, a later poll (after any further publishing) returns no
  event, and no id, of the earlier poll again.
\<close>

theorem get_since_cursor_monotone:
  "let b = publish_all ms (RuntimeEventBus cap);
       r1 = get_since c b;
       c' = advance_cursor c r1;
       r2 = get_since c' (publish_all ms' b)
   in (\<forall>e \<in> set r1. c < ev_id e) \<and>
      sorted_wrt (<) (map ev_id r1) \<and>
      sorted_wrt (<) (map ev_id r2) \<and>
      (\<forall>e \<in> set r2. c' < ev_id e) \<and>
      c \<le> c' \<and>
      (\<forall>e1 \<in> set r1. \<forall>e2 \<in> set r2. ev_id e1 < ev_id e2) \<and>
      set r1 \<inter> set r2 = {}"
proof -
  define b where "b = publish_all ms (RuntimeEventBus cap)"
  define r1 where "r1 = get_since c b"
  define c' where "c' = advance_cursor c r1"
  define r2 where "r2 = get_since c' (publish_all ms' b)"
  have inv: "bus_inv b" unfolding b_def by (rule bus_inv_publish_all) (rule bus_inv_init)
  have inv': "bus_inv (publish_all ms' b)" using inv by (rule bus_inv_publish_all)
  have 1: "\<forall>e \<in> set r1. c < ev_id e" by (simp add: r1_def get_since_def)
  have 2: "sorted_wrt (<) (map ev_id r1)" unfolding r1_def using inv by (rule get_since_sorted)
  have 3: "sorted_wrt (<) (map ev_id r2)" unfolding r2_def using inv' by (rule get_since_sorted)
  have 4: "\<forall>e \<in> set r2. c' < ev_id e" by (simp add: r2_def get_since_def)
  have 5: "c \<le> c'" unfolding c'_def by (rule advance_cursor_ge)
  have 6: "\<forall>e1 \<in> set r1. \<forall>e2 \<in> set r2. ev_id e1 < ev_id e2"
  proof (intro ballI)
    fix e1 e2 assume "e1 \<in> set r1" "e2 \<in> set r2"
    then have "ev_id e1 \<le> c'" "c' < ev_id e2"
      using 4 by (simp_all add: c'_def advance_cursor_bound)
    then show "ev_id e1 < ev_id e2" by simp
  qed
  have 7: "set r1 \<inter> set r2 = {}" using 6 by fastforce
  from 1 2 3 4 5 6 7 show ?thesis
    unfolding Let_def b_def [symmetric] r1_def [symmetric] c'_def [symmetric] r2_def [symmetric]
    by blast
qed

theorem get_since_cursor_monotone_witness:
  "let b = publish_all [(''log'', ''a''), (''log'', ''b''), (''log'', ''c'')]
             (RuntimeEventBus 2);
       r1 = get_since 1 b;
       c' = advance_cursor 1 r1;
       r2 = get_since c' (publish_all [(''log'', ''d'')] b)
   in map ev_id r1 = [2, 3] \<and> c' = 3 \<and> map ev_id r2 = [4] \<and>
      (\<forall>e \<in> set r1. 1 < ev_id e) \<and>
      (\<forall>e1 \<in> set r1. \<forall>e2 \<in> set r2. ev_id e1 < ev_id e2) \<and>
      set r1 \<inter> set r2 = {}"
  using get_since_cursor_monotone
    [where c = 1 and cap = 2 and ms' = "[(''log'', ''d'')]"
       and ms = "[(''log'', ''a''), (''log'', ''b''), (''log'', ''c'')]"]
  by (simp add: Let_def RuntimeEventBus_def publish_def deque_append_def get_since_def
      advance_cursor_def)

text \<open>
  C10.  On the bus the orchestrator creates (capacity 2000), after any number \<open>n\<close> of
  publishes: at most 2000 events are retained (exactly \<open>min n 2000\<close>), they carry the last
  ids handed out, the next publish returns \<open>n + 1\<close> (so the first returns 1, ids are
  consecutive and none is handed out twice), and it appends its event, dropping exactly
  the oldest retained event once 2000 are held.
\<close>

theorem event_ring_bounded:
  "let b = publish_all ms (RuntimeEventBus 2000);
       n = length ms;
       r = publish ty msg b
   in length (events b) = min n 2000 \<and>
      length (events b) \<le> 2000 \<and>
      map ev_id (events b) = [int n - int (min n 2000) + 1 .. int n] \<and>
      fst r = int n + 1 \<and>
      next_id (snd r) = int n + 2 \<and>
      events (snd r) =
        (if 2000 \<le> n then tl (events b) else events b) @
        [\<lparr>ev_id = int n + 1, ev_type = ty, ev_message = msg\<rparr>]"
proof -
  define b where "b = publish_all ms (RuntimeEventBus 2000)"
  have cap: "max_events b = 2000"
    by (simp add: b_def max_events_publish_all RuntimeEventBus_def)
  have nid: "next_id b = int (length ms) + 1"
    by (simp add: b_def next_id_publish_all RuntimeEventBus_def)
  have len: "length (events b) = min (length ms) 2000"
    unfolding b_def
    using length_events_publish_all [of "RuntimeEventBus 2000" ms]
    by (simp add: RuntimeEventBus_def)
  have "bus_inv b" unfolding b_def by (rule bus_inv_publish_all) (rule bus_inv_init)
  then have "map ev_id (events b) = [next_id b - int (length (events b)) .. next_id b - 1]"
    by (simp add: bus_inv_def)
  moreover have "next_id b - int (length (events b)) = int (length ms) - int (min (length ms) 2000) + 1"
    by (simp add: nid len)
  moreover have "next_id b - 1 = int (length ms)"
    by (simp add: nid)
  ultimately have ids: "map ev_id (events b) = [int (length ms) - int (min (length ms) 2000) + 1 .. int (length ms)]"
    by (simp only:)
  have ret: "fst (publish ty msg b) = int (length ms) + 1"
    by (simp add: publish_def Let_def nid)
  have nxt: "next_id (snd (publish ty msg b)) = int (length ms) + 2"
    by (simp add: publish_def Let_def nid)
  have evs: "events (snd (publish ty msg b)) =
        (if 2000 \<le> length ms then tl (events b) else events b) @
        [\<lparr>ev_id = int (length ms) + 1, ev_type = ty, ev_message = msg\<rparr>]"
  proof (cases "2000 \<le> length ms")
    case True
    then have "length (events b) = 2000" using len by simp
    then have "events b \<noteq> []" by auto
    with True \<open>length (events b) = 2000\<close> show ?thesis
      by (simp add: publish_def Let_def deque_append_def cap nid)
  next
    case False
    then show ?thesis
      by (simp add: publish_def Let_def deque_append_def cap nid len)
  qed
  from len ids ret nxt evs show ?thesis
    unfolding Let_def b_def [symmetric] by simp
qed

section \<open>Properties of the fix accumulator\<close>

text \<open>
  C1 (the claim fails on the code).  Both branches of the test in \<open>_upsert_fixes\<close> store
  the new item, so a Failed outcome arriving after a Fixed one for the same identity key
  replaces it: here the first batch records Fixed for (app.py, SYNTAX, 10), the second
  batch brings Failed for the same key, and the accumulator ends holding only the Failed
  outcome.
\<close>

theorem upsert_fixed_then_failed_overwrites:
  "map_sum id acc_fixes
     (upsert_batches
        [[\<lparr>fx_file = ''app.py'', fx_bug_type = SYNTAX, fx_line = 10, fx_status = Fixed,
            fx_commit_message = ''[AI-AGENT] Fix SYNTAX error''\<rparr>],
         [\<lparr>fx_file = ''app.py'', fx_bug_type = SYNTAX, fx_line = 10, fx_status = Failed,
            fx_commit_message = ''[AI-AGENT] Could not auto-fix SYNTAX''\<rparr>]]
        empty_acc)
   = Inr [\<lparr>fx_file = ''app.py'', fx_bug_type = SYNTAX, fx_line = 10, fx_status = Failed,
            fx_commit_message = ''[AI-AGENT] Could not auto-fix SYNTAX''\<rparr>]"
  by (simp add: upsert_one_def empty_acc_def fix_key_def Let_def)

section \<open>Properties of the bug classifier\<close>

lemma add_bugs_Nil: "add_bugs [] st = st"
  by (simp add: add_bugs_def)

lemma add_bugs_append: "add_bugs (xs @ ys) st = add_bugs ys (add_bugs xs st)"
  by (simp add: add_bugs_def)

lemma parse_candidates:
  "parse logs =
     (if logs = [] then []
      else let st = add_bugs (candidates logs) ([], {})
           in fst (if fst st = [] then add_bug st ''<unknown>'' UNKNOWN 1 else st))"
  by (simp add: parse_def candidates_def add_bugs_append Let_def)

lemma clean_path_unknown: "clean_path ''<unknown>'' = ''<unknown>''"
  by (simp add: clean_path_def)

lemma w: "candidates ''boom'' = []"
  by (simp add: candidates_def family_def pyright_family_def collecting_family_def findall_def
     scan_findall.simps syntax_re_def indentation_re_def import_re_def type_re_def logic_re_def
     logic_short_re_def lint_re_def pyright_re_def collecting_re_def file_line_def path_line_def)








lemma parse_unknown:
  assumes "logs \<noteq> []" "candidates logs = []"
  shows "parse logs = [\<lparr>bug_file = ''<unknown>'', bug_type = UNKNOWN, bug_line = 1, bug_status = Detected\<rparr>]"
  using assms
  by (simp add: parse_candidates add_bugs_Nil add_bug_def clean_path_unknown Let_def)


text \<open>
  C4.  The empty text is classified as the empty list.  A non-empty text in which none of
  the nine matcher families finds anything is classified as exactly one record: file
  \<open><unknown>\<close>, type UNKNOWN, line 1, status Detected.
\<close>

theorem parse_unknown_fallback:
  "parse [] = [] \<and>
   (logs \<noteq> [] \<and> candidates logs = [] \<longrightarrow>
    parse logs = [\<lparr>bug_file = ''<unknown>'', bug_type = UNKNOWN, bug_line = 1, bug_status = Detected\<rparr>])"
  by (simp add: parse_unknown) (simp add: parse_def)

theorem parse_unknown_fallback_witness:
  "''boom'' \<noteq> [] \<and> candidates ''boom'' = [] \<and>
   parse ''boom'' = [\<lparr>bug_file = ''<unknown>'', bug_type = UNKNOWN, bug_line = 1, bug_status = Detected\<rparr>]"
proof -
  have c: "candidates ''boom'' = []"
    by (simp add: candidates_def family_def pyright_family_def collecting_family_def findall_def
     scan_findall.simps syntax_re_def indentation_re_def import_re_def type_re_def logic_re_def
     logic_short_re_def lint_re_def pyright_re_def collecting_re_def file_line_def path_line_def)
  with parse_unknown_fallback [of "''boom''"] show ?thesis by simp
qed




end
